theory Spec2Isabelle
  imports Main
begin

section \<open>Strings and characters\<close>

text \<open>
  The program is Python. Its strings are sequences of Unicode code points, which it splits
  (\<^verbatim>\<open>list("...")\<close>), indexes and searches by code point. A character is
  modelled as its code point (a \<^typ>\<open>nat\<close>) and a string as the list of its code
  points. Each character used has a name made of a romanisation and the code point in
  hexadecimal, so \<open>bang_5E6B\<close> is U+5E6B; letters, digits and signs of ASCII are
  \<open>asc_A\<close>, \<open>asc_at\<close> and so on.

  Names of the source, which are written in Chinese characters, are romanised in the same
  way. The attributes of a position: \<open>mu\<close> (U+6BCD, the initial), \<open>hu\<close>
  (U+547C, rounding), \<open>deng\<close> (U+7B49, division), \<open>lei\<close> (U+985E, class),
  \<open>yun\<close> (U+97FB, rime), \<open>sheng\<close> (U+8072, tone).
\<close>

type_synonym uchar = nat
type_synonym ustr = "nat list"

abbreviation bang_5E6B :: nat where "bang_5E6B \<equiv> 0x5E6B"
abbreviation pang_6EC2 :: nat where "pang_6EC2 \<equiv> 0x6EC2"
abbreviation bing_4E26 :: nat where "bing_4E26 \<equiv> 0x4E26"
abbreviation ming_660E :: nat where "ming_660E \<equiv> 0x660E"
abbreviation duan_7AEF :: nat where "duan_7AEF \<equiv> 0x7AEF"
abbreviation tou_900F :: nat where "tou_900F \<equiv> 0x900F"
abbreviation ding_5B9A :: nat where "ding_5B9A \<equiv> 0x5B9A"
abbreviation ni_6CE5 :: nat where "ni_6CE5 \<equiv> 0x6CE5"
abbreviation lai_4F86 :: nat where "lai_4F86 \<equiv> 0x4F86"
abbreviation zhi_77E5 :: nat where "zhi_77E5 \<equiv> 0x77E5"
abbreviation che_5FB9 :: nat where "che_5FB9 \<equiv> 0x5FB9"
abbreviation cheng_6F84 :: nat where "cheng_6F84 \<equiv> 0x6F84"
abbreviation niang_5B43 :: nat where "niang_5B43 \<equiv> 0x5B43"
abbreviation jing_7CBE :: nat where "jing_7CBE \<equiv> 0x7CBE"
abbreviation qing_6E05 :: nat where "qing_6E05 \<equiv> 0x6E05"
abbreviation cong_5F9E :: nat where "cong_5F9E \<equiv> 0x5F9E"
abbreviation xin_5FC3 :: nat where "xin_5FC3 \<equiv> 0x5FC3"
abbreviation xie_90AA :: nat where "xie_90AA \<equiv> 0x90AA"
abbreviation zhuang_838A :: nat where "zhuang_838A \<equiv> 0x838A"
abbreviation chu_521D :: nat where "chu_521D \<equiv> 0x521D"
abbreviation chong_5D07 :: nat where "chong_5D07 \<equiv> 0x5D07"
abbreviation sheng_751F :: nat where "sheng_751F \<equiv> 0x751F"
abbreviation si_4FDF :: nat where "si_4FDF \<equiv> 0x4FDF"
abbreviation zhang_7AE0 :: nat where "zhang_7AE0 \<equiv> 0x7AE0"
abbreviation chang_660C :: nat where "chang_660C \<equiv> 0x660C"
abbreviation chang_5E38 :: nat where "chang_5E38 \<equiv> 0x5E38"
abbreviation shu_66F8 :: nat where "shu_66F8 \<equiv> 0x66F8"
abbreviation chuan_8239 :: nat where "chuan_8239 \<equiv> 0x8239"
abbreviation ri_65E5 :: nat where "ri_65E5 \<equiv> 0x65E5"
abbreviation jian_898B :: nat where "jian_898B \<equiv> 0x898B"
abbreviation xi_6EAA :: nat where "xi_6EAA \<equiv> 0x6EAA"
abbreviation qun_7FA3 :: nat where "qun_7FA3 \<equiv> 0x7FA3"
abbreviation yi_7591 :: nat where "yi_7591 \<equiv> 0x7591"
abbreviation ying_5F71 :: nat where "ying_5F71 \<equiv> 0x5F71"
abbreviation xiao_66C9 :: nat where "xiao_66C9 \<equiv> 0x66C9"
abbreviation xia_5323 :: nat where "xia_5323 \<equiv> 0x5323"
abbreviation yun_4E91 :: nat where "yun_4E91 \<equiv> 0x4E91"
abbreviation yi_4EE5 :: nat where "yi_4EE5 \<equiv> 0x4EE5"
abbreviation dong_6771 :: nat where "dong_6771 \<equiv> 0x6771"
abbreviation dong_51AC :: nat where "dong_51AC \<equiv> 0x51AC"
abbreviation zhong_937E :: nat where "zhong_937E \<equiv> 0x937E"
abbreviation jiang_6C5F :: nat where "jiang_6C5F \<equiv> 0x6C5F"
abbreviation zhi_652F :: nat where "zhi_652F \<equiv> 0x652F"
abbreviation zhi_8102 :: nat where "zhi_8102 \<equiv> 0x8102"
abbreviation zhi_4E4B :: nat where "zhi_4E4B \<equiv> 0x4E4B"
abbreviation wei_5FAE :: nat where "wei_5FAE \<equiv> 0x5FAE"
abbreviation yu_9B5A :: nat where "yu_9B5A \<equiv> 0x9B5A"
abbreviation yu_865E :: nat where "yu_865E \<equiv> 0x865E"
abbreviation mu_6A21 :: nat where "mu_6A21 \<equiv> 0x6A21"
abbreviation qi_9F4A :: nat where "qi_9F4A \<equiv> 0x9F4A"
abbreviation ji_796D :: nat where "ji_796D \<equiv> 0x796D"
abbreviation tai_6CF0 :: nat where "tai_6CF0 \<equiv> 0x6CF0"
abbreviation jia_4F73 :: nat where "jia_4F73 \<equiv> 0x4F73"
abbreviation jie_7686 :: nat where "jie_7686 \<equiv> 0x7686"
abbreviation guai_592C :: nat where "guai_592C \<equiv> 0x592C"
abbreviation hui_7070 :: nat where "hui_7070 \<equiv> 0x7070"
abbreviation hai_548D :: nat where "hai_548D \<equiv> 0x548D"
abbreviation fei_5EE2 :: nat where "fei_5EE2 \<equiv> 0x5EE2"
abbreviation zhen_771F :: nat where "zhen_771F \<equiv> 0x771F"
abbreviation zhen_81FB :: nat where "zhen_81FB \<equiv> 0x81FB"
abbreviation wen_6587 :: nat where "wen_6587 \<equiv> 0x6587"
abbreviation yin_6BB7 :: nat where "yin_6BB7 \<equiv> 0x6BB7"
abbreviation yuan_5143 :: nat where "yuan_5143 \<equiv> 0x5143"
abbreviation hun_9B42 :: nat where "hun_9B42 \<equiv> 0x9B42"
abbreviation hen_75D5 :: nat where "hen_75D5 \<equiv> 0x75D5"
abbreviation han_5BD2 :: nat where "han_5BD2 \<equiv> 0x5BD2"
abbreviation shan_522A :: nat where "shan_522A \<equiv> 0x522A"
abbreviation shan_5C71 :: nat where "shan_5C71 \<equiv> 0x5C71"
abbreviation xian_5148 :: nat where "xian_5148 \<equiv> 0x5148"
abbreviation xian_4ED9 :: nat where "xian_4ED9 \<equiv> 0x4ED9"
abbreviation xiao_856D :: nat where "xiao_856D \<equiv> 0x856D"
abbreviation xiao_5BB5 :: nat where "xiao_5BB5 \<equiv> 0x5BB5"
abbreviation yao_80B4 :: nat where "yao_80B4 \<equiv> 0x80B4"
abbreviation hao_8C6A :: nat where "hao_8C6A \<equiv> 0x8C6A"
abbreviation ge_6B4C :: nat where "ge_6B4C \<equiv> 0x6B4C"
abbreviation ma_9EBB :: nat where "ma_9EBB \<equiv> 0x9EBB"
abbreviation yang_967D :: nat where "yang_967D \<equiv> 0x967D"
abbreviation tang_5510 :: nat where "tang_5510 \<equiv> 0x5510"
abbreviation geng_5E9A :: nat where "geng_5E9A \<equiv> 0x5E9A"
abbreviation geng_8015 :: nat where "geng_8015 \<equiv> 0x8015"
abbreviation qing_9752 :: nat where "qing_9752 \<equiv> 0x9752"
abbreviation zheng_84B8 :: nat where "zheng_84B8 \<equiv> 0x84B8"
abbreviation deng_767B :: nat where "deng_767B \<equiv> 0x767B"
abbreviation you_5C24 :: nat where "you_5C24 \<equiv> 0x5C24"
abbreviation hou_4FAF :: nat where "hou_4FAF \<equiv> 0x4FAF"
abbreviation you_5E7D :: nat where "you_5E7D \<equiv> 0x5E7D"
abbreviation qin_4FB5 :: nat where "qin_4FB5 \<equiv> 0x4FB5"
abbreviation tan_8983 :: nat where "tan_8983 \<equiv> 0x8983"
abbreviation tan_8AC7 :: nat where "tan_8AC7 \<equiv> 0x8AC7"
abbreviation yan_9E7D :: nat where "yan_9E7D \<equiv> 0x9E7D"
abbreviation tian_6DFB :: nat where "tian_6DFB \<equiv> 0x6DFB"
abbreviation xian_54B8 :: nat where "xian_54B8 \<equiv> 0x54B8"
abbreviation xian_929C :: nat where "xian_929C \<equiv> 0x929C"
abbreviation yan_56B4 :: nat where "yan_56B4 \<equiv> 0x56B4"
abbreviation fan_51E1 :: nat where "fan_51E1 \<equiv> 0x51E1"
abbreviation kai_958B :: nat where "kai_958B \<equiv> 0x958B"
abbreviation he_5408 :: nat where "he_5408 \<equiv> 0x5408"
abbreviation yi_4E00 :: nat where "yi_4E00 \<equiv> 0x4E00"
abbreviation er_4E8C :: nat where "er_4E8C \<equiv> 0x4E8C"
abbreviation san_4E09 :: nat where "san_4E09 \<equiv> 0x4E09"
abbreviation si_56DB :: nat where "si_56DB \<equiv> 0x56DB"
abbreviation ping_5E73 :: nat where "ping_5E73 \<equiv> 0x5E73"
abbreviation shang_4E0A :: nat where "shang_4E0A \<equiv> 0x4E0A"
abbreviation qu_53BB :: nat where "qu_53BB \<equiv> 0x53BB"
abbreviation ru_5165 :: nat where "ru_5165 \<equiv> 0x5165"
abbreviation mu_6BCD :: nat where "mu_6BCD \<equiv> 0x6BCD"
abbreviation kou_53E3 :: nat where "kou_53E3 \<equiv> 0x53E3"
abbreviation deng_7B49 :: nat where "deng_7B49 \<equiv> 0x7B49"
abbreviation lei_985E :: nat where "lei_985E \<equiv> 0x985E"
abbreviation yun_97FB :: nat where "yun_97FB \<equiv> 0x97FB"
abbreviation yin_97F3 :: nat where "yin_97F3 \<equiv> 0x97F3"
abbreviation zu_7D44 :: nat where "zu_7D44 \<equiv> 0x7D44"
abbreviation zhong_4E2D :: nat where "zhong_4E2D \<equiv> 0x4E2D"
abbreviation li_7ACB :: nat where "li_7ACB \<equiv> 0x7ACB"
abbreviation quan_5168 :: nat where "quan_5168 \<equiv> 0x5168"
abbreviation ci_6B21 :: nat where "ci_6B21 \<equiv> 0x6B21"
abbreviation zhuo_6FC1 :: nat where "zhuo_6FC1 \<equiv> 0x6FC1"
abbreviation chun_8123 :: nat where "chun_8123 \<equiv> 0x8123"
abbreviation she_820C :: nat where "she_820C \<equiv> 0x820C"
abbreviation chi_9F52 :: nat where "chi_9F52 \<equiv> 0x9F52"
abbreviation ya_7259 :: nat where "ya_7259 \<equiv> 0x7259"
abbreviation hou_5589 :: nat where "hou_5589 \<equiv> 0x5589"
abbreviation fei_975E :: nat where "fei_975E \<equiv> 0x975E"
abbreviation tong_901A :: nat where "tong_901A \<equiv> 0x901A"
abbreviation zhi_6B62 :: nat where "zhi_6B62 \<equiv> 0x6B62"
abbreviation yu_9047 :: nat where "yu_9047 \<equiv> 0x9047"
abbreviation xie_87F9 :: nat where "xie_87F9 \<equiv> 0x87F9"
abbreviation xiao_6548 :: nat where "xiao_6548 \<equiv> 0x6548"
abbreviation guo_679C :: nat where "guo_679C \<equiv> 0x679C"
abbreviation jia_5047 :: nat where "jia_5047 \<equiv> 0x5047"
abbreviation dang_5B95 :: nat where "dang_5B95 \<equiv> 0x5B95"
abbreviation geng_6897 :: nat where "geng_6897 \<equiv> 0x6897"
abbreviation zeng_66FE :: nat where "zeng_66FE \<equiv> 0x66FE"
abbreviation liu_6D41 :: nat where "liu_6D41 \<equiv> 0x6D41"
abbreviation shen_6DF1 :: nat where "shen_6DF1 \<equiv> 0x6DF1"
abbreviation ge_9694 :: nat where "ge_9694 \<equiv> 0x9694"
abbreviation asc_at :: nat where "asc_at \<equiv> 0x0040"
abbreviation asc_A :: nat where "asc_A \<equiv> 0x0041"
abbreviation asc_B :: nat where "asc_B \<equiv> 0x0042"
abbreviation asc_C :: nat where "asc_C \<equiv> 0x0043"
abbreviation asc_D :: nat where "asc_D \<equiv> 0x0044"
abbreviation asc_E :: nat where "asc_E \<equiv> 0x0045"
abbreviation asc_H :: nat where "asc_H \<equiv> 0x0048"
abbreviation asc_K :: nat where "asc_K \<equiv> 0x004B"
abbreviation asc_N :: nat where "asc_N \<equiv> 0x004E"
abbreviation asc_U :: nat where "asc_U \<equiv> 0x0055"

text \<open>\<^verbatim>\<open>list(s)\<close> and \<^verbatim>\<open>tuple(s)\<close> of a string: its one-character strings.\<close>

definition chars_of :: "ustr \<Rightarrow> ustr list" where
  "chars_of s = map (\<lambda>c. [c]) s"

text \<open>
  \<^verbatim>\<open>x in s\<close> for two strings is the substring test,
      not membership of a character:
  the empty string and every contiguous run of \<open>s\<close> are in \<open>s\<close>.
\<close>

fun is_prefix :: "'a list \<Rightarrow> 'a list \<Rightarrow> bool" where
  "is_prefix [] ys = True"
| "is_prefix (x # xs) [] = False"
| "is_prefix (x # xs) (y # ys) = (x = y \<and> is_prefix xs ys)"

fun str_in :: "'a list \<Rightarrow> 'a list \<Rightarrow> bool" where
  "str_in xs [] = (xs = [])"
| "str_in xs (y # ys) = (is_prefix xs (y # ys) \<or> str_in xs ys)"

text \<open>\<^verbatim>\<open>x in xs\<close> for a list,
    tuple or set \<open>xs\<close> of strings is membership.\<close>

definition elem :: "'a \<Rightarrow> 'a list \<Rightarrow> bool" where
  "elem x xs = (x \<in> set xs)"

text \<open>\<^verbatim>\<open>x or ""\<close> for an optional string.\<close>

definition or_empty :: "ustr option \<Rightarrow> ustr" where
  "or_empty v = (case v of None \<Rightarrow> [] | Some s \<Rightarrow> s)"

section \<open>Errors\<close>

text \<open>
  Every \<^verbatim>\<open>raise\<close> of the source is a value. The message of an exception is kept as a
  short ASCII tag that names the raising statement; the texts interpolated into the
  source's messages are not modelled.
\<close>

datatype error =
    ValueError string
  | RuntimeError string
  | TypeError string
  | KeyError ustr

definition is_ValueError :: "error + 'a \<Rightarrow> bool" where
  "is_ValueError r = (case r of Inl (ValueError msg) \<Rightarrow> True | _ \<Rightarrow> False)"

text \<open>A check that raises or falls through; the first one to raise decides the error.\<close>

fun first_error :: "error option list \<Rightarrow> error option" where
  "first_error [] = None"
| "first_error (None # cs) = first_error cs"
| "first_error (Some e # cs) = Some e"

definition reject :: "string \<Rightarrow> error option" where
  "reject msg = Some (ValueError msg)"

section \<open>The attribute tables\<close>

text \<open>
  The source imports its tables from a module of attribute constants: \<open>suoyou\<close>
  (U+6240 U+6709, the closed domains of the six attributes), \<open>mu_dao_qingzhuo\<close>,
  \<open>mu_dao_zu\<close>, \<open>mu_dao_yin\<close>,
      \<open>yun_dao_she\<close> (derived attributes by initial
  and by rime),
      \<open>deng_mu_dapei\<close> and \<open>deng_yun_dapei\<close> (divisions compatible with an
  initial and with a rime), \<open>hu_yun_dapei\<close> (rounding compatible with a rime),
  \<open>dunyin_mu\<close> (the non-sharp initials) and \<open>yinsheng_yun\<close> (the rimes that take no
  entering tone). The tables are a parameter of every function that reads them. A
  dictionary is an association list in the order of its items; a dictionary indexed by a
  key it lacks raises \<open>KeyError\<close>.
\<close>

type_synonym 'v pydict = "(ustr \<times> 'v) list"

record tables =
  suoyou_mu :: "ustr list"
  suoyou_hu :: "ustr list"
  suoyou_deng :: "ustr list"
  suoyou_lei :: "ustr list"
  suoyou_yun :: "ustr list"
  suoyou_sheng :: "ustr list"
  mu_dao_qingzhuo :: "ustr pydict"
  mu_dao_zu :: "(ustr option) pydict"
  mu_dao_yin :: "ustr pydict"
  yun_dao_she :: "ustr pydict"
  deng_mu_dapei :: "(ustr list) pydict"
  deng_yun_dapei :: "(ustr list) pydict"
  hu_yun_dapei :: "(ustr list) pydict"
  dunyin_mu :: "ustr list"
  yinsheng_yun :: "ustr list"

definition dict_at :: "'v pydict \<Rightarrow> ustr \<Rightarrow> error + 'v" where
  "dict_at d k = (case map_of d k of None \<Rightarrow> Inl (KeyError k) | Some v \<Rightarrow> Inr v)"

definition dict_get :: "'v pydict \<Rightarrow> ustr \<Rightarrow> 'v \<Rightarrow> 'v" where
  "dict_get d k dflt = (case map_of d k of None \<Rightarrow> dflt | Some v \<Rightarrow> v)"

definition with_key :: "'v pydict \<Rightarrow> ustr \<Rightarrow> ('v \<Rightarrow> error option) \<Rightarrow> error option" where
  "with_key d k f = (case dict_at d k of Inl e \<Rightarrow> Some e | Inr v \<Rightarrow> f v)"

section \<open>Positions and their validation\<close>

text \<open>The class of positions: six attributes, rounding and class optional.\<close>

record yinyun_diwei =
  mu :: ustr
  hu :: "ustr option"
  deng :: ustr
  lei :: "ustr option"
  yun :: ustr
  sheng :: ustr

text \<open>The property \<open>miaoshu\<close> (U+63CF U+8FF0): the six attributes in one string.\<close>

definition miaoshu_of :: "ustr \<Rightarrow> ustr option \<Rightarrow> ustr \<Rightarrow> ustr option \<Rightarrow> ustr \<Rightarrow> ustr \<Rightarrow> ustr" where
  "miaoshu_of m h d l y s = m @ or_empty h @ d @ or_empty l @ y @ s"

definition miaoshu :: "yinyun_diwei \<Rightarrow> ustr" where
  "miaoshu p = miaoshu_of (mu p) (hu p) (deng p) (lei p) (yun p) (sheng p)"

text \<open>The method \<open>dengyu\<close> (U+7B49 U+65BC): equality of positions is equality of descriptions.\<close>

definition dengyu :: "yinyun_diwei \<Rightarrow> yinyun_diwei \<Rightarrow> bool" where
  "dengyu p q = (miaoshu p = miaoshu q)"

text \<open>
  The function \<open>lei_dapei\<close> (U+985E U+642D U+914D): the typical and the permitted
  classes of a rime, as two strings; the initial U+4E91 loses class A in both.
\<close>

definition lei_dapei_pairs :: "(ustr \<times> ustr list) list" where
  "lei_dapei_pairs =
     [([asc_C], [[dong_6771], [zhong_937E], [zhi_4E4B], [wei_5FAE], [yu_9B5A], [yu_865E],
         [fei_5EE2], [yin_6BB7], [yuan_5143], [wen_6587], [ge_6B4C], [you_5C24], [yan_56B4],
         [fan_51E1]]),
      ([asc_A, asc_B], [[zhi_652F], [zhi_8102], [ji_796D], [zhen_771F], [xian_4ED9], [xiao_5BB5],
          [ma_9EBB], [you_5E7D], [qin_4FB5], [yan_9E7D]]),
      ([asc_A], [[qing_6E05]]),
      ([asc_B], [[geng_5E9A]]),
      ([asc_B, asc_C], [[zheng_84B8]]),
      ([asc_C, asc_A], [[yang_967D]])]"

fun lei_dapei_find :: "(ustr \<times> ustr list) list \<Rightarrow> ustr \<Rightarrow> (ustr \<times> ustr) option" where
  "lei_dapei_find [] y = None"
| "lei_dapei_find ((leizu, yunzu) # rest) y =
     (if elem y yunzu then Some (if leizu = [asc_C, asc_A] then [asc_C] else leizu, leizu)
      else lei_dapei_find rest y)"

definition lei_dapei :: "ustr \<Rightarrow> ustr \<Rightarrow> error + (ustr \<times> ustr)" where
  "lei_dapei m y =
     (case lei_dapei_find lei_dapei_pairs y of
        None \<Rightarrow> Inl (ValueError ''unknown yun'')
      | Some (dianxing, keyong) \<Rightarrow>
          if m = [yun_4E91]
          then Inr (filter (\<lambda>c. c \<noteq> asc_A) dianxing,
              filter (\<lambda>c. c \<noteq> asc_A) keyong)
          else Inr (dianxing, keyong))"

subsection \<open>The rule families of the validator, in the order of the source\<close>

text \<open>Rule 1: each attribute is in its domain; only rounding and class may be absent.\<close>

definition check_attr :: "ustr list \<Rightarrow> ustr option \<Rightarrow> bool \<Rightarrow> error option" where
  "check_attr domain v nullable =
     (case v of
        None \<Rightarrow> if nullable then None else reject ''missing attribute''
      | Some x \<Rightarrow> if elem x domain then None else reject ''unrecognized attribute'')"

definition check_domains ::
  "tables \<Rightarrow> ustr \<Rightarrow> ustr option \<Rightarrow> ustr \<Rightarrow> ustr option \<Rightarrow> ustr \<Rightarrow> ustr \<Rightarrow> error option" where
  "check_domains T m h d l y s =
     first_error
       [check_attr (suoyou_mu T) (Some m) False,
        check_attr (suoyou_hu T) h True,
        check_attr (suoyou_deng T) (Some d) False,
        check_attr (suoyou_lei T) l True,
        check_attr (suoyou_yun T) (Some y) False,
        check_attr (suoyou_sheng T) (Some s) False]"

text \<open>Rule 2: no entering tone on a rime of \<open>yinsheng_yun\<close>.\<close>

definition check_rusheng :: "tables \<Rightarrow> ustr \<Rightarrow> ustr \<Rightarrow> error option" where
  "check_rusheng T y s =
     (if s = [ru_5165] \<and> elem y (yinsheng_yun T) then reject ''unexpected yun with ru sheng''
      else None)"

text \<open>Rule 3: every group of \<open>deng_mu_dapei\<close> that holds the initial admits the division.\<close>

fun check_deng_mu :: "(ustr list) pydict \<Rightarrow> ustr \<Rightarrow> ustr \<Rightarrow> error option" where
  "check_deng_mu [] m d = None"
| "check_deng_mu ((dapei_deng, dapei_mu) # rest) m d =
     (if elem m dapei_mu \<and> \<not> str_in d dapei_deng then reject ''unexpected mu with deng''
      else check_deng_mu rest m d)"

text \<open>
  Rule 4: the first group of \<open>deng_yun_dapei\<close> that holds the rime admits the division,
      or
  admits division three while the position has division four and one of four initials.
\<close>

fun check_deng_yun :: "(ustr list) pydict \<Rightarrow> ustr \<Rightarrow> ustr \<Rightarrow> ustr \<Rightarrow> error option" where
  "check_deng_yun [] m d y = None"
| "check_deng_yun ((ge_deng, ge_yun) # rest) m d y =
     (if elem y ge_yun then
        (if str_in d ge_deng then None
         else if str_in [san_4E09] ge_deng \<and> d = [si_56DB] \<and> str_in m [duan_7AEF,
             tou_900F, ding_5B9A, ni_6CE5] then None
         else reject ''unexpected yun with deng'')
      else check_deng_yun rest m d y)"

text \<open>Rule 5: rounding.\<close>

definition kai_or_he :: "ustr option \<Rightarrow> bool" where
  "kai_or_he h = (h = Some [kai_958B] \<or> h = Some [he_5408])"

definition check_hu :: "tables \<Rightarrow> ustr \<Rightarrow> ustr option \<Rightarrow> ustr \<Rightarrow> error option" where
  "check_hu T m h y =
     (if str_in m [bang_5E6B, pang_6EC2, bing_4E26, ming_660E] then
        (if h \<noteq> None then reject ''unexpected hu for labial'' else None)
      else with_key (hu_yun_dapei T) [zhong_4E2D, li_7ACB] (\<lambda>zhongli.
        if elem y zhongli then
          (if h \<noteq> None then reject ''unexpected hu for neutral yun'' else None)
        else with_key (hu_yun_dapei T) [kai_958B] (\<lambda>kai.
             with_key (hu_yun_dapei T) [he_5408] (\<lambda>he.
             with_key (hu_yun_dapei T) [kai_958B, he_5408] (\<lambda>kaihe.
          if elem y kai \<or> elem y he \<or> elem y kaihe then
            (let expected =
               (if elem y kaihe then None
                else if elem y kai then Some [kai_958B]
                else if elem y he then Some [he_5408]
                else None)
             in case expected of
                  None \<Rightarrow> if \<not> kai_or_he h then reject ''missing hu (kai or he)'' else None
                | Some e \<Rightarrow>
                    if h = Some e then None
                    else if h = None then reject ''missing hu (expected one)''
                    else reject ''unexpected yun with hu'')
          else (if \<not> kai_or_he h then reject ''missing hu'' else None))))))"

text \<open>Rule 6: class.\<close>

definition check_lei :: "tables \<Rightarrow> ustr \<Rightarrow> ustr \<Rightarrow> ustr option \<Rightarrow> ustr \<Rightarrow> error option" where
  "check_lei T m d l y =
     (if d \<noteq> [san_4E09] then
        (if l \<noteq> None then reject ''unexpected lei for deng other than three'' else None)
      else if \<not> elem m (dunyin_mu T) then
        (if l \<noteq> None then reject ''unexpected lei for sharp initial'' else None)
      else
        (case lei_dapei m y of
           Inl e \<Rightarrow> Some e
         | Inr (dianxing, keyong) \<Rightarrow>
             (case l of
                None \<Rightarrow> reject ''missing lei''
              | Some c \<Rightarrow>
                  if \<not> str_in c keyong then
                    (if m = [yun_4E91] \<and> c = [asc_A] then reject ''unexpected yun mu lei A''
                     else reject ''unexpected yun with lei'')
                  else None)))"

text \<open>Rule 7: rimes without labial initials, and the rime with labial initials only.\<close>

definition check_chunyin :: "ustr \<Rightarrow> ustr \<Rightarrow> error option" where
  "check_chunyin m y =
     (if str_in m [bang_5E6B, pang_6EC2, bing_4E26, ming_660E] then
        (if str_in y [zhi_4E4B, yu_9B5A, yin_6BB7, hen_75D5,
            yan_56B4] then reject ''unexpected yun with labial'' else None)
      else if y = [fan_51E1] then reject ''unexpected fan yun without labial''
      else None)"

text \<open>Rule 8: the retroflex sibilant initials.\<close>

definition check_zhuangzu :: "tables \<Rightarrow> ustr \<Rightarrow> ustr option \<Rightarrow> ustr \<Rightarrow> ustr \<Rightarrow> error option" where
  "check_zhuangzu T m h d y =
     (if str_in m [zhuang_838A, chu_521D, chong_5D07, sheng_751F, si_4FDF] then
        (if d = [san_4E09] \<and> y = [qing_6E05] then reject ''unexpected yun with zhuang zu''
         else if h = Some [kai_958B] \<and> elem y [[zhen_771F], [yin_6BB7]]
         then reject ''unexpected yun kai kou with zhuang zu''
         else None)
      else
        (if y = [zhen_81FB] then reject ''unexpected zhen yun without zhuang zu''
         else if y = [geng_5E9A] \<and> d \<noteq> [er_4E8C] \<and> \<not> elem m (dunyin_mu T)
         then reject ''unexpected geng yun with deng and mu''
         else None))"

definition check_rules ::
  "tables \<Rightarrow> ustr \<Rightarrow> ustr option \<Rightarrow> ustr \<Rightarrow> ustr option \<Rightarrow> ustr \<Rightarrow> ustr \<Rightarrow> error option" where
  "check_rules T m h d l y s =
     first_error
       [check_domains T m h d l y s,
        check_rusheng T y s,
        check_deng_mu (deng_mu_dapei T) m d,
        check_deng_yun (deng_yun_dapei T) m d y,
        check_hu T m h y,
        check_lei T m d l y,
        check_chunyin m y,
        check_zhuangzu T m h d y]"

subsection \<open>Marginal kinds\<close>

text \<open>
  The declared kinds are a Python sequence of strings. A list and a tuple with the same
  items are different values for \<^verbatim>\<open>==\<close>,
      and the sentinel \<open>UNCHECKED\<close> is a tuple, so the
  model keeps which of the two a sequence is.
\<close>

datatype 'a pyseq = PyList "'a list" | PyTuple "'a list"

fun items_of :: "'a pyseq \<Rightarrow> 'a list" where
  "items_of (PyList xs) = xs"
| "items_of (PyTuple xs) = xs"

definition UNCHECKED :: "ustr pyseq" where
  "UNCHECKED = PyTuple [[asc_at, asc_U, asc_N, asc_C, asc_H, asc_E, asc_C, asc_K, asc_E, asc_D,
      asc_at]]"

text \<open>The set \<open>yizhi_bianyuan_diwei\<close> (U+5DF2 U+77E5 U+908A U+7DE3 U+5730 U+4F4D) of known marginal positions.\<close>

definition yizhi_bianyuan_diwei :: "ustr list" where
  "yizhi_bianyuan_diwei =
     [[bing_4E26, san_4E09, asc_A, yang_967D, shang_4E0A], [ding_5B9A, kai_958B, si_56DB,
         zhi_8102, qu_53BB], [duan_7AEF, kai_958B, er_4E8C, geng_5E9A, shang_4E0A], [duan_7AEF,
         kai_958B, er_4E8C, ma_9EBB, shang_4E0A], [duan_7AEF, kai_958B, si_56DB, ma_9EBB,
         ping_5E73],
      [duan_7AEF, kai_958B, si_56DB, ma_9EBB, shang_4E0A], [ding_5B9A, kai_958B, er_4E8C,
          jia_4F73, shang_4E0A], [duan_7AEF, si_56DB, you_5C24, ping_5E73], [yun_4E91, kai_958B,
          san_4E09, asc_C, zhi_4E4B, shang_4E0A], [yun_4E91, kai_958B, san_4E09, asc_B,
          xian_4ED9, ping_5E73]]"

text \<open>
  The list \<open>marginal_tests\<close>: kind,
      strictness and triggering condition of each test. Its
  second condition reads \<open>deng_yun_dapei\<close> at the key U+56DB,
      and only when the initial
  is one of four and the division is four.
\<close>

definition duanzu_leige_condition :: "tables \<Rightarrow> ustr \<Rightarrow> ustr \<Rightarrow> ustr \<Rightarrow> error + bool" where
  "duanzu_leige_condition T m d y =
     (if str_in m [duan_7AEF, tou_900F, ding_5B9A, ni_6CE5] then
        (if d = [er_4E8C] then Inr True
         else if d = [si_56DB] then
           (case dict_at (deng_yun_dapei T) [si_56DB] of
              Inl e \<Rightarrow> Inl e
            | Inr si \<Rightarrow> Inr (\<not> elem y si))
         else Inr False)
      else Inr False)"

definition marginal_tests ::
  "tables \<Rightarrow> ustr \<Rightarrow> ustr option \<Rightarrow> ustr \<Rightarrow> ustr option \<Rightarrow> ustr \<Rightarrow> error + (ustr \<times> bool \<times> bool) list" where
  "marginal_tests T m h d l y =
     (case duanzu_leige_condition T m d y of
        Inl e \<Rightarrow> Inl e
      | Inr duanzu \<Rightarrow>
          Inr [([yang_967D, yun_97FB, asc_A, lei_985E], True,
              y = [yang_967D] \<and> l = Some [asc_A]),
               ([duan_7AEF, zu_7D44, lei_985E, ge_9694], True, duanzu),
               ([hai_548D, yun_97FB, chun_8123, yin_97F3], True,
                   y = [hai_548D] \<and> str_in m [bang_5E6B, pang_6EC2, bing_4E26, ming_660E]),
               ([xia_5323, mu_6BCD, san_4E09, deng_7B49], True,
                   m = [xia_5323] \<and> d = [san_4E09]),
               ([qun_7FA3, xie_90AA, si_4FDF, mu_6BCD, fei_975E, san_4E09, deng_7B49], True,
                   str_in m [qun_7FA3, xie_90AA, si_4FDF] \<and> d \<noteq> [san_4E09]),
               ([yun_4E91, mu_6BCD, kai_958B, kou_53E3], False,
                  m = [yun_4E91] \<and> h = Some [kai_958B] \<and> \<not> str_in y [xiao_5BB5,
                      you_5E7D, qin_4FB5, yan_9E7D, yan_56B4])])"

text \<open>The first loop: a declared kind that no test has raises.\<close>

fun check_known_kinds :: "ustr list \<Rightarrow> ustr list \<Rightarrow> error option" where
  "check_known_kinds known [] = None"
| "check_known_kinds known (kind # rest) =
     (if \<not> elem kind known then reject ''unknown type of marginal position''
      else check_known_kinds known rest)"

text \<open>
  The second loop: a triggered test needs its kind declared; a strict test that is not
  triggered forbids it.
\<close>

fun check_marginal_tests :: "(ustr \<times> bool \<times> bool) list \<Rightarrow> ustr list \<Rightarrow> error option" where
  "check_marginal_tests [] zhiding = None"
| "check_marginal_tests ((kind, strict, condition) # rest) zhiding =
     (if condition \<and> \<not> elem kind zhiding then reject ''unexpected marginal position''
      else if strict \<and> \<not> condition \<and> elem kind zhiding
      then reject ''expect marginal position''
      else check_marginal_tests rest zhiding)"

definition check_marginal ::
  "tables \<Rightarrow> ustr \<Rightarrow> ustr option \<Rightarrow> ustr \<Rightarrow> ustr option \<Rightarrow> ustr \<Rightarrow> ustr \<Rightarrow> ustr pyseq \<Rightarrow> error option" where
  "check_marginal T m h d l y s kinds =
     (if kinds = UNCHECKED \<or> elem (miaoshu_of m h d l y s) yizhi_bianyuan_diwei then None
      else if \<not> distinct (items_of kinds) then reject ''duplicates in marginal kinds''
      else
        (case marginal_tests T m h d l y of
           Inl e \<Rightarrow> Some e
         | Inr tests \<Rightarrow>
             first_error
               [check_known_kinds (map fst tests) (items_of kinds),
                check_marginal_tests tests (items_of kinds)]))"

text \<open>The static method \<open>yanzheng\<close> (U+9A57 U+8B49): \<open>None\<close> when it returns.\<close>

definition yanzheng ::
  "tables \<Rightarrow> ustr \<Rightarrow> ustr option \<Rightarrow> ustr \<Rightarrow> ustr option \<Rightarrow> ustr \<Rightarrow> ustr \<Rightarrow> ustr pyseq \<Rightarrow> error option" where
  "yanzheng T m h d l y s kinds =
     first_error [check_rules T m h d l y s, check_marginal T m h d l y s kinds]"

text \<open>
  The constructor: \<^verbatim>\<open>kinds or ()\<close> turns an absent or empty sequence into the empty
  tuple, the validator runs, and the attributes are stored.
\<close>

definition kinds_or_empty :: "ustr pyseq option \<Rightarrow> ustr pyseq" where
  "kinds_or_empty k =
     (case k of None \<Rightarrow> PyTuple [] | Some q \<Rightarrow> if items_of q = [] then PyTuple [] else q)"

definition new_yinyun_diwei ::
  "tables \<Rightarrow> ustr \<Rightarrow> ustr option \<Rightarrow> ustr \<Rightarrow> ustr option \<Rightarrow> ustr \<Rightarrow> ustr \<Rightarrow> ustr pyseq option \<Rightarrow> error + yinyun_diwei" where
  "new_yinyun_diwei T m h d l y s kinds =
     (case yanzheng T m h d l y s (kinds_or_empty kinds) of
        Some e \<Rightarrow> Inl e
      | None \<Rightarrow> Inr \<lparr>mu = m, hu = h, deng = d, lei = l, yun = y,
          sheng = s\<rparr>)"

subsection \<open>The tables of the program\<close>

text \<open>
  Modelled from the spec: the module of attribute constants is missing from the source
  files, and the spec gives the domains of rounding, division, class and tone but not the
  contents of the other tables. The value \<open>tables0\<close> is the tables as the rest of the
  source and its tests fix them: the order of the initials and of the rimes from the
  codec's examples and its rime table, the groups from the messages and the accepted
  descriptions of the tests. General theorems below hold for every value of the
  tables; \<open>tables0\<close> is used where a statement needs a concrete position.
\<close>

definition mu_groups :: "(ustr \<times> 'v) list \<Rightarrow> 'v pydict" where
  "mu_groups gs = concat (map (\<lambda>(members, v). map (\<lambda>c. ([c], v)) members) gs)"

definition tables0 :: tables where
  "tables0 = \<lparr>
     suoyou_mu = [[bang_5E6B], [pang_6EC2], [bing_4E26], [ming_660E], [duan_7AEF], [tou_900F],
         [ding_5B9A], [ni_6CE5], [lai_4F86], [zhi_77E5], [che_5FB9], [cheng_6F84], [niang_5B43],
         [jing_7CBE], [qing_6E05], [cong_5F9E], [xin_5FC3], [xie_90AA], [zhuang_838A],
         [chu_521D], [chong_5D07], [sheng_751F], [si_4FDF], [zhang_7AE0], [chang_660C],
         [chang_5E38], [shu_66F8], [chuan_8239], [ri_65E5], [jian_898B], [xi_6EAA], [qun_7FA3],
         [yi_7591], [ying_5F71], [xiao_66C9], [xia_5323], [yun_4E91], [yi_4EE5]],
     suoyou_hu = [[kai_958B], [he_5408]],
     suoyou_deng = [[yi_4E00], [er_4E8C], [san_4E09], [si_56DB]],
     suoyou_lei = [[asc_A], [asc_B], [asc_C]],
     suoyou_yun = [[dong_6771], [dong_51AC], [zhong_937E], [jiang_6C5F], [zhi_652F], [zhi_8102],
         [zhi_4E4B], [wei_5FAE], [yu_9B5A], [yu_865E], [mu_6A21], [qi_9F4A], [ji_796D],
         [tai_6CF0], [jia_4F73], [jie_7686], [guai_592C], [hui_7070], [hai_548D], [fei_5EE2],
         [zhen_771F], [zhen_81FB], [wen_6587], [yin_6BB7], [yuan_5143], [hun_9B42], [hen_75D5],
         [han_5BD2], [shan_522A], [shan_5C71], [xian_5148], [xian_4ED9], [xiao_856D],
         [xiao_5BB5], [yao_80B4], [hao_8C6A], [ge_6B4C], [ma_9EBB], [yang_967D], [tang_5510],
         [geng_5E9A], [geng_8015], [qing_6E05], [qing_9752], [zheng_84B8], [deng_767B],
         [you_5C24], [hou_4FAF], [you_5E7D], [qin_4FB5], [tan_8983], [tan_8AC7], [yan_9E7D],
         [tian_6DFB], [xian_54B8], [xian_929C], [yan_56B4], [fan_51E1]],
     suoyou_sheng = [[ping_5E73], [shang_4E0A], [qu_53BB], [ru_5165]],
     mu_dao_qingzhuo = mu_groups
       [([bang_5E6B, duan_7AEF, zhi_77E5, jing_7CBE, xin_5FC3, zhuang_838A, sheng_751F,
           zhang_7AE0, shu_66F8, jian_898B, ying_5F71, xiao_66C9], [quan_5168, qing_6E05]),
        ([pang_6EC2, tou_900F, che_5FB9, qing_6E05, chu_521D, chang_660C, xi_6EAA], [ci_6B21,
            qing_6E05]),
        ([bing_4E26, ding_5B9A, cheng_6F84, cong_5F9E, xie_90AA, chong_5D07, si_4FDF, chang_5E38,
            chuan_8239, qun_7FA3, xia_5323], [quan_5168, zhuo_6FC1]),
        ([ming_660E, ni_6CE5, lai_4F86, niang_5B43, ri_65E5, yi_7591, yun_4E91, yi_4EE5],
            [ci_6B21, zhuo_6FC1])],
     mu_dao_zu = mu_groups
       [([bang_5E6B, pang_6EC2, bing_4E26, ming_660E], Some [bang_5E6B]),
        ([duan_7AEF, tou_900F, ding_5B9A, ni_6CE5], Some [duan_7AEF]),
        ([zhi_77E5, che_5FB9, cheng_6F84, niang_5B43], Some [zhi_77E5]),
        ([jing_7CBE, qing_6E05, cong_5F9E, xin_5FC3, xie_90AA], Some [jing_7CBE]),
        ([zhuang_838A, chu_521D, chong_5D07, sheng_751F, si_4FDF], Some [zhuang_838A]),
        ([zhang_7AE0, chang_660C, chang_5E38, shu_66F8, chuan_8239], Some [zhang_7AE0]),
        ([jian_898B, xi_6EAA, qun_7FA3, yi_7591], Some [jian_898B]),
        ([ying_5F71, xiao_66C9, xia_5323, yun_4E91], Some [ying_5F71]),
        ([lai_4F86, ri_65E5, yi_4EE5], None)],
     mu_dao_yin = mu_groups
       [([bang_5E6B, pang_6EC2, bing_4E26, ming_660E], [chun_8123]),
        ([duan_7AEF, tou_900F, ding_5B9A, ni_6CE5, lai_4F86, zhi_77E5, che_5FB9, cheng_6F84,
            niang_5B43], [she_820C]),
        ([jing_7CBE, qing_6E05, cong_5F9E, xin_5FC3, xie_90AA, zhuang_838A, chu_521D, chong_5D07,
            sheng_751F, si_4FDF, zhang_7AE0, chang_660C, chang_5E38, shu_66F8, chuan_8239,
            ri_65E5], [chi_9F52]),
        ([jian_898B, xi_6EAA, qun_7FA3, yi_7591], [ya_7259]),
        ([ying_5F71, xiao_66C9, xia_5323, yun_4E91, yi_4EE5], [hou_5589])],
     yun_dao_she = mu_groups
       [([dong_6771, dong_51AC, zhong_937E], [tong_901A]),
        ([jiang_6C5F], [jiang_6C5F]),
        ([zhi_652F, zhi_8102, zhi_4E4B, wei_5FAE], [zhi_6B62]),
        ([yu_9B5A, yu_865E, mu_6A21], [yu_9047]),
        ([qi_9F4A, ji_796D, tai_6CF0, jia_4F73, jie_7686, guai_592C, hui_7070, hai_548D,
            fei_5EE2], [xie_87F9]),
        ([zhen_771F, zhen_81FB, wen_6587, yin_6BB7, hun_9B42, hen_75D5], [zhen_81FB]),
        ([yuan_5143, han_5BD2, shan_522A, shan_5C71, xian_5148, xian_4ED9], [shan_5C71]),
        ([xiao_856D, xiao_5BB5, yao_80B4, hao_8C6A], [xiao_6548]),
        ([ge_6B4C], [guo_679C]),
        ([ma_9EBB], [jia_5047]),
        ([yang_967D, tang_5510], [dang_5B95]),
        ([geng_5E9A, geng_8015, qing_6E05, qing_9752], [geng_6897]),
        ([zheng_84B8, deng_767B], [zeng_66FE]),
        ([you_5C24, hou_4FAF, you_5E7D], [liu_6D41]),
        ([qin_4FB5], [shen_6DF1]),
        ([tan_8983, tan_8AC7, yan_9E7D, tian_6DFB, xian_54B8, xian_929C, yan_56B4, fan_51E1],
            [xian_54B8])],
     deng_mu_dapei =
       [([yi_4E00, er_4E8C, si_56DB], [[duan_7AEF], [tou_900F], [ding_5B9A], [ni_6CE5]]),
        ([er_4E8C, san_4E09], [[zhi_77E5], [che_5FB9], [cheng_6F84], [niang_5B43], [zhuang_838A],
            [chu_521D], [chong_5D07], [sheng_751F]]),
        ([yi_4E00, san_4E09, si_56DB], [[jing_7CBE], [qing_6E05], [cong_5F9E], [xin_5FC3]]),
        ([san_4E09], [[zhang_7AE0], [chang_660C], [chang_5E38], [shu_66F8], [chuan_8239],
            [ri_65E5], [yi_4EE5], [yun_4E91]])],
     deng_yun_dapei =
       [([yi_4E00], [[dong_51AC], [mu_6A21], [tai_6CF0], [hai_548D], [hui_7070], [hen_75D5],
           [hun_9B42], [han_5BD2], [hao_8C6A], [tang_5510], [deng_767B], [hou_4FAF], [tan_8983],
           [tan_8AC7]]),
        ([er_4E8C], [[jiang_6C5F], [jia_4F73], [jie_7686], [guai_592C], [shan_522A], [shan_5C71],
            [yao_80B4], [geng_8015], [xian_54B8], [xian_929C]]),
        ([san_4E09], [[zhong_937E], [zhi_652F], [zhi_8102], [zhi_4E4B], [wei_5FAE], [yu_9B5A],
            [yu_865E], [ji_796D], [fei_5EE2], [zhen_771F], [zhen_81FB], [yin_6BB7], [yuan_5143],
            [wen_6587], [xian_4ED9], [xiao_5BB5], [yang_967D], [qing_6E05], [zheng_84B8],
            [you_5C24], [you_5E7D], [qin_4FB5], [yan_9E7D], [yan_56B4], [fan_51E1]]),
        ([si_56DB], [[qi_9F4A], [xian_5148], [xiao_856D], [qing_9752], [tian_6DFB]]),
        ([yi_4E00, san_4E09], [[dong_6771], [ge_6B4C]]),
        ([er_4E8C, san_4E09], [[ma_9EBB], [geng_5E9A]])],
     hu_yun_dapei =
       [([kai_958B, he_5408], [[zhi_652F], [zhi_8102], [wei_5FAE], [qi_9F4A], [ji_796D],
           [tai_6CF0], [jia_4F73], [jie_7686], [guai_592C], [fei_5EE2], [zhen_771F], [yuan_5143],
           [han_5BD2], [shan_522A], [shan_5C71], [xian_5148], [xian_4ED9], [ge_6B4C], [ma_9EBB],
           [yang_967D], [tang_5510], [geng_5E9A], [geng_8015], [qing_6E05], [qing_9752],
           [zheng_84B8], [deng_767B]]),
        ([kai_958B], [[hai_548D], [hen_75D5], [yin_6BB7], [yan_56B4], [zhi_4E4B], [yu_9B5A],
            [zhen_81FB], [xiao_856D], [xiao_5BB5], [yao_80B4], [hao_8C6A], [you_5E7D],
            [qin_4FB5], [tan_8983], [tan_8AC7], [yan_9E7D], [tian_6DFB], [xian_54B8],
            [xian_929C]]),
        ([he_5408], [[yu_865E], [hui_7070], [hun_9B42], [wen_6587], [fan_51E1]]),
        ([zhong_4E2D, li_7ACB], [[dong_6771], [dong_51AC], [zhong_937E], [jiang_6C5F], [mu_6A21],
            [you_5C24], [hou_4FAF]])],
     dunyin_mu = [[bang_5E6B], [pang_6EC2], [bing_4E26], [ming_660E], [jian_898B], [xi_6EAA],
         [qun_7FA3], [yi_7591], [ying_5F71], [xiao_66C9], [xia_5323], [yun_4E91]],
     yinsheng_yun = [[zhi_652F], [zhi_8102], [zhi_4E4B], [wei_5FAE], [yu_9B5A], [yu_865E],
         [mu_6A21], [qi_9F4A], [ji_796D], [tai_6CF0], [jia_4F73], [jie_7686], [guai_592C],
         [hui_7070], [hai_548D], [fei_5EE2], [xiao_856D], [xiao_5BB5], [yao_80B4], [hao_8C6A],
         [ge_6B4C], [ma_9EBB], [hou_4FAF], [you_5C24], [you_5E7D]]
   \<rparr>"

section \<open>Coordinates of the rime table\<close>

text \<open>
  The dataclass \<open>yunjing_weizhi\<close> (U+97FB U+93E1 U+4F4D U+7F6E): the number of the diagram
  \<open>zhuanhao\<close> (U+8F49 U+865F),
      the row \<open>shangwei\<close> (U+4E0A U+4F4D) and the column
  \<open>youwei\<close> (U+53F3 U+4F4D),
      Python integers. Its \<^verbatim>\<open>__post_init__\<close> checks the three
  bounds in this order.
\<close>

record yunjing_weizhi =
  zhuanhao :: int
  shangwei :: int
  youwei :: int

definition new_yunjing_weizhi :: "int \<Rightarrow> int \<Rightarrow> int \<Rightarrow> error + yunjing_weizhi" where
  "new_yunjing_weizhi z s r =
     (if \<not> (1 \<le> z \<and> z \<le> 43) then Inl (ValueError ''zhuanhao must be between 1 and 43'')
      else if \<not> (1 \<le> s \<and> s \<le> 16) then Inl (ValueError ''shangwei must be between 1 and 16'')
      else if \<not> (1 \<le> r \<and> r \<le> 23) then Inl (ValueError ''youwei must be between 1 and 23'')
      else Inr \<lparr>zhuanhao = z, shangwei = s, youwei = r\<rparr>)"

section \<open>Properties of the validator\<close>

lemma first_error_Cons_None: "first_error (None # cs) = first_error cs"
  by simp

definition raises_ValueError :: "error option \<Rightarrow> bool" where
  "raises_ValueError r = (\<exists>msg. r = Some (ValueError msg))"

definition ValueError_or_None :: "error option \<Rightarrow> bool" where
  "ValueError_or_None r = (r = None \<or> raises_ValueError r)"

lemma reject_raises: "raises_ValueError (reject msg)"
  by (simp add: raises_ValueError_def reject_def)

lemma check_attr_ValueError: "ValueError_or_None (check_attr domain v nullable)"
  by (simp add: ValueError_or_None_def check_attr_def reject_raises split: option.split)

lemma first_error_ValueError:
  "list_all ValueError_or_None cs \<Longrightarrow> ValueError_or_None (first_error cs)"
  by (induction cs rule: first_error.induct) (simp_all add: ValueError_or_None_def raises_ValueError_def)

lemma check_domains_ValueError: "ValueError_or_None (check_domains T m h d l y s)"
  unfolding check_domains_def
  by (rule first_error_ValueError) (simp add: check_attr_ValueError)

lemma check_rusheng_ValueError: "ValueError_or_None (check_rusheng T y s)"
  by (simp add: ValueError_or_None_def check_rusheng_def reject_raises)

lemma check_deng_mu_ValueError: "ValueError_or_None (check_deng_mu dapei m d)"
  by (induction dapei m d rule: check_deng_mu.induct)
     (simp_all add: ValueError_or_None_def reject_raises)

lemma check_deng_yun_ValueError: "ValueError_or_None (check_deng_yun dapei m d y)"
  by (induction dapei m d y rule: check_deng_yun.induct)
     (simp_all add: ValueError_or_None_def reject_raises)

lemma first_error_raises:
  "list_all ValueError_or_None cs \<Longrightarrow> raises_ValueError c \<Longrightarrow>
   raises_ValueError (first_error (cs @ c # rest))"
  by (induction cs rule: first_error.induct)
     (auto simp: ValueError_or_None_def raises_ValueError_def)

lemma labial_str_in:
  "m \<in> {[bang_5E6B], [pang_6EC2], [bing_4E26],
      [ming_660E]} \<Longrightarrow> str_in m [bang_5E6B, pang_6EC2, bing_4E26, ming_660E]"
  by auto

lemma check_hu_labial:
  "str_in m [bang_5E6B, pang_6EC2, bing_4E26,
      ming_660E] \<Longrightarrow> h \<noteq> None \<Longrightarrow> raises_ValueError (check_hu T m h y)"
  by (simp add: check_hu_def reject_raises)

lemma check_rules_labial:
  assumes "str_in m [bang_5E6B, pang_6EC2, bing_4E26, ming_660E]" and "h \<noteq> None"
  shows "raises_ValueError (check_rules T m h d l y s)"
proof -
  have hu: "raises_ValueError (check_hu T m h y)"
    using assms by (rule check_hu_labial)
  have "raises_ValueError
          (first_error
             ([check_domains T m h d l y s, check_rusheng T y s,
               check_deng_mu (deng_mu_dapei T) m d, check_deng_yun (deng_yun_dapei T) m d y]
              @ check_hu T m h y
              # [check_lei T m d l y, check_chunyin m y, check_zhuangzu T m h d y]))"
    by (rule first_error_raises)
       (simp_all add: check_domains_ValueError check_rusheng_ValueError
          check_deng_mu_ValueError check_deng_yun_ValueError hu)
  then show ?thesis by (simp add: check_rules_def)
qed

text \<open>
  C8. A position whose initial is one of the four labial initials U+5E6B, U+6EC2, U+4E26,
  U+660E and whose rounding is present is rejected by the constructor with a
  \<open>ValueError\<close>, whatever the other attributes, the declared marginal kinds and the
  tables are.
\<close>

theorem labial_with_hu_rejected:
  assumes "m \<in> {[bang_5E6B], [pang_6EC2], [bing_4E26], [ming_660E]}" and "h \<noteq> None"
  shows "\<exists>msg. new_yinyun_diwei T m h d l y s kinds = Inl (ValueError msg)"
proof -
  have "raises_ValueError (check_rules T m h d l y s)"
    using assms by (intro check_rules_labial labial_str_in)
  then obtain msg where "check_rules T m h d l y s = Some (ValueError msg)"
    by (auto simp: raises_ValueError_def)
  then show ?thesis
    by (simp add: new_yinyun_diwei_def yanzheng_def)
qed

theorem labial_with_hu_rejected_witness:
  "[ming_660E] \<in> {[bang_5E6B], [pang_6EC2], [bing_4E26],
      [ming_660E]} \<and> Some [he_5408] \<noteq> None \<and>
   (\<exists>msg. new_yinyun_diwei tables0 [ming_660E] (Some [he_5408]) [yi_4E00] None [hun_9B42] [ping_5E73] None
           = Inl (ValueError msg))"
  using labial_with_hu_rejected [of "[ming_660E]" "Some [he_5408]" tables0 "[yi_4E00]" None "[hun_9B42]" "[ping_5E73]" None]
  by simp

section \<open>Properties of the coordinates\<close>

text \<open>
  C9. Constructing a coordinate raises exactly when the diagram is outside 1..43, the row
  outside 1..16 or the column outside 1..23, and the error is the bounds error; inside
  the three bounds the construction returns the coordinate.
\<close>

theorem yunjing_weizhi_bounds:
  "(\<exists>e. new_yunjing_weizhi z s r = Inl e)
     = (z < 1 \<or> 43 < z \<or> s < 1 \<or> 16 < s \<or> r < 1 \<or> 23 < r)
   \<and> is_ValueError (new_yunjing_weizhi z s r)
     = (z < 1 \<or> 43 < z \<or> s < 1 \<or> 16 < s \<or> r < 1 \<or> 23 < r)
   \<and> (new_yunjing_weizhi z s r = Inr \<lparr>zhuanhao = z, shangwei = s, youwei = r\<rparr>)
     = (1 \<le> z \<and> z \<le> 43 \<and> 1 \<le> s \<and> s \<le> 16 \<and> 1 \<le> r \<and> r \<le> 23)"
  by (auto simp: new_yunjing_weizhi_def is_ValueError_def)

end
